theory Spec2Isabelle
  imports Complex_Main
begin

section \<open>Heart disease predictor: the form, the encoder, the outputs\<close>

text \<open>
  A shallow embedding of \<^verbatim>\<open>app.py\<close>. The script runs top to bottom once per
  interaction: it loads the pickled model, draws the form, and, when the form was
  submitted, encodes the answers, asks the model and draws the outputs.

  Python \<^verbatim>\<open>int\<close> is \<^typ>\<open>int\<close>. A Python \<^verbatim>\<open>float\<close> is read as the
  real number it denotes (\<^typ>\<open>real\<close>); the script's only arithmetic on floats is
  \<^verbatim>\<open>round(probability * 100, 2)\<close>, whose two operations round their results to
  binary64 as Python's do. Exceptions are values of \<open>error\<close>, and a computation that may
  raise returns \<open>error + 'a\<close>.
\<close>

subsection \<open>Errors\<close>

datatype error =
    KeyError string
  | IndexError
  | LoadError string
  | ModelError string

subsection \<open>Input widgets\<close>

text \<open>
  \<^verbatim>\<open>st.number_input(label, min_value=, max_value=, value=)\<close>: the widget hands the
  script a number between \<open>min_value\<close> and \<open>max_value\<close>; \<open>initial\<close> is the
  \<^verbatim>\<open>value=\<close> argument, the number shown before the user types.
\<close>

record 'a number_input =
  min_value :: 'a
  max_value :: 'a
  initial :: 'a

definition accepts :: "('a::linorder) number_input \<Rightarrow> 'a \<Rightarrow> bool" where
  "accepts w v \<longleftrightarrow> min_value w \<le> v \<and> v \<le> max_value w"

definition age_input :: "int number_input" where
  "age_input = \<lparr>min_value = 1, max_value = 120, initial = 30\<rparr>"

definition trestbps_input :: "int number_input" where
  "trestbps_input = \<lparr>min_value = 80, max_value = 200, initial = 120\<rparr>"

definition chol_input :: "int number_input" where
  "chol_input = \<lparr>min_value = 100, max_value = 600, initial = 200\<rparr>"

definition thalach_input :: "int number_input" where
  "thalach_input = \<lparr>min_value = 60, max_value = 220, initial = 150\<rparr>"

definition oldpeak_input :: "real number_input" where
  "oldpeak_input = \<lparr>min_value = 0.0, max_value = 10.0, initial = 1.0\<rparr>"

text \<open>\<^verbatim>\<open>st.selectbox(label, options)\<close>: the widget hands the script one of \<open>options\<close>.\<close>

definition sex_options :: "string list" where
  "sex_options = [''Male'', ''Female'']"

definition cp_options :: "string list" where
  "cp_options = [''Typical Angina'', ''Atypical Angina'', ''Non Anginal Pain'', ''Asymptomatic'']"

definition fbs_options :: "string list" where
  "fbs_options = [''False'', ''True'']"

definition restecg_options :: "string list" where
  "restecg_options = [''Abnormality'', ''Normal'', ''Left ventricular hypertrophy'']"

definition exercise_options :: "string list" where
  "exercise_options = [''No pain'', ''Pain'']"

definition slope_options :: "string list" where
  "slope_options = [''Downsloping'', ''Upsloping'', ''Flat'']"

definition ca_options :: "string list" where
  "ca_options = [''Normal'', ''One vessel colored'', ''Two vessels colored'',
     ''Three vessels colored'', ''Four vessel colored'']"

definition thal_options :: "string list" where
  "thal_options = [''Reversible defect'', ''Normal'', ''Fixed Defect'', ''Unknown'']"

text \<open>The thirteen values the form hands to the script.\<close>

record patient_input =
  age :: int
  sex :: string
  cp :: string
  fbs :: string
  restecg :: string
  exercise :: string
  trestbps :: int
  chol :: int
  thalach :: int
  oldpeak :: real
  slope :: string
  ca :: string
  thal :: string

text \<open>What the form can submit: every number inside its widget's bounds, every label one of
  its widget's options.\<close>

definition submittable :: "patient_input \<Rightarrow> bool" where
  "submittable p \<longleftrightarrow>
     accepts age_input (age p) \<and>
     sex p \<in> set sex_options \<and>
     cp p \<in> set cp_options \<and>
     fbs p \<in> set fbs_options \<and>
     restecg p \<in> set restecg_options \<and>
     exercise p \<in> set exercise_options \<and>
     accepts trestbps_input (trestbps p) \<and>
     accepts chol_input (chol p) \<and>
     accepts thalach_input (thalach p) \<and>
     accepts oldpeak_input (oldpeak p) \<and>
     slope p \<in> set slope_options \<and>
     ca p \<in> set ca_options \<and>
     thal p \<in> set thal_options"

subsection \<open>Categorical encoder\<close>

text \<open>A dict literal is its list of items; \<^verbatim>\<open>d[k]\<close> raises \<^verbatim>\<open>KeyError\<close> on a
  missing key.\<close>

type_synonym code_map = "(string \<times> int) list"

definition getitem :: "code_map \<Rightarrow> string \<Rightarrow> error + int" where
  "getitem d k = (case map_of d k of None \<Rightarrow> Inl (KeyError k) | Some v \<Rightarrow> Inr v)"

definition sex_code :: "string \<Rightarrow> int" where
  "sex_code s = (if s = ''Male'' then 1 else 0)"

definition cp_map :: code_map where
  "cp_map = [(''Typical Angina'', 3), (''Atypical Angina'', 1), (''Non Anginal Pain'', 2),
     (''Asymptomatic'', 0)]"

definition restecg_map :: code_map where
  "restecg_map = [(''Abnormality'', 0), (''Normal'', 1), (''Left ventricular hypertrophy'', 2)]"

definition exang_map :: code_map where
  "exang_map = [(''No pain'', 0), (''Pain'', 1)]"

definition slope_map :: code_map where
  "slope_map = [(''Downsloping'', 0), (''Upsloping'', 2), (''Flat'', 1)]"

definition ca_map :: code_map where
  "ca_map = [(''Normal'', 0), (''One vessel colored'', 1), (''Two vessels colored'', 2),
     (''Three vessels colored'', 3), (''Four vessel colored'', 4)]"

definition thal_map :: code_map where
  "thal_map = [(''Reversible defect'', 2), (''Normal'', 1), (''Fixed Defect'', 0),
     (''Unknown'', 3)]"

text \<open>\<^verbatim>\<open>int(fbs == "True")\<close>.\<close>

definition fbs_code :: "string \<Rightarrow> int" where
  "fbs_code s = (if s = ''True'' then 1 else 0)"

subsection \<open>The feature row\<close>

text \<open>A cell of a data frame is a Python int or a Python float.\<close>

datatype cell = IntCell int | FloatCell real

record data_frame =
  columns :: "string list"
  rows :: "cell list list"

definition feature_columns :: "string list" where
  "feature_columns =
     [''age'', ''trestbps'', ''chol'', ''thalach'', ''oldpeak'',
      ''encoded_sex'', ''encoded_cp'', ''encoded_fbs'',
      ''encoded_restecg'', ''encoded_exang'', ''encoded_slope'',
      ''encoded_ca'', ''encoded_thal'']"

text \<open>Sequencing: an exception raised by the first computation ends the whole one.\<close>

definition then_do :: "error + 'a \<Rightarrow> ('a \<Rightarrow> error + 'b) \<Rightarrow> error + 'b" where
  "then_do r f = (case r of Inl e \<Rightarrow> Inl e | Inr x \<Rightarrow> f x)"

text \<open>The list elements are evaluated left to right, so the first failing lookup is the
  one that raises.\<close>

definition input_data :: "patient_input \<Rightarrow> error + data_frame" where
  "input_data p =
     then_do (getitem cp_map (cp p)) (\<lambda>cp_code.
     then_do (getitem restecg_map (restecg p)) (\<lambda>restecg_code.
     then_do (getitem exang_map (exercise p)) (\<lambda>exang_code.
     then_do (getitem slope_map (slope p)) (\<lambda>slope_code.
     then_do (getitem ca_map (ca p)) (\<lambda>ca_code.
     then_do (getitem thal_map (thal p)) (\<lambda>thal_code.
       Inr \<lparr>columns = feature_columns,
            rows = [[IntCell (age p), IntCell (trestbps p), IntCell (chol p),
                     IntCell (thalach p), FloatCell (oldpeak p),
                     IntCell (sex_code (sex p)), IntCell cp_code, IntCell (fbs_code (fbs p)),
                     IntCell restecg_code, IntCell exang_code,
                     IntCell slope_code, IntCell ca_code, IntCell thal_code]]\<rparr>))))))"

subsection \<open>The model\<close>

text \<open>
  The unpickled classifier is a black box with two operations. \<^verbatim>\<open>predict\<close> returns
  one label per row, \<^verbatim>\<open>predict_proba\<close> one list of class probabilities per row;
  either may raise.
\<close>

record model =
  predict :: "data_frame \<Rightarrow> error + int list"
  predict_proba :: "data_frame \<Rightarrow> error + real list list"

text \<open>\<^verbatim>\<open>xs[i]\<close> for the literal indices \<open>0\<close> and \<open>1\<close> of the script.\<close>

definition index :: "'a list \<Rightarrow> nat \<Rightarrow> error + 'a" where
  "index xs i = (if i < length xs then Inr (xs ! i) else Inl IndexError)"

text \<open>\<^verbatim>\<open>prediction = model_random.predict(input_data)[0]\<close> and
  \<^verbatim>\<open>probability = model_random.predict_proba(input_data)[0][1]\<close>.\<close>

definition ask_model :: "model \<Rightarrow> data_frame \<Rightarrow> error + int \<times> real" where
  "ask_model model_random df =
     then_do (predict model_random df) (\<lambda>labels.
     then_do (index labels 0) (\<lambda>prediction.
     then_do (predict_proba model_random df) (\<lambda>probas.
     then_do (index probas 0) (\<lambda>proba.
     then_do (index proba 1) (\<lambda>probability.
       Inr (prediction, probability))))))"

subsection \<open>Risk gauge\<close>

record step =
  step_range :: "real \<times> real"
  step_color :: string

record gauge =
  mode :: string
  gauge_value :: real
  title_text :: string
  axis_range :: "real \<times> real"
  bar_color :: string
  steps :: "step list"

definition risk_gauge :: "int \<Rightarrow> real \<Rightarrow> gauge" where
  "risk_gauge prediction probability =
     \<lparr>mode = ''gauge+number'',
      gauge_value = probability,
      title_text = ''Heart Disease Risk'',
      axis_range = (0, 1),
      bar_color = (if prediction = 1 then ''red'' else ''green''),
      steps = [\<lparr>step_range = (0, 0.5), step_color = ''#c8f7c5''\<rparr>,
               \<lparr>step_range = (0.5, 1), step_color = ''#f9c0c0''\<rparr>]\<rparr>"



subsection \<open>Cholesterol bar\<close>

text \<open>\<^verbatim>\<open>ax.barh(["Cholesterol"], [chol], color=...)\<close>, the dashed line of
  \<^verbatim>\<open>ax.axvline(x=200, ...)\<close> and the axis label.\<close>

record chol_chart =
  barh_y :: "string list"
  barh_width :: "int list"
  barh_color :: string
  axvline_x :: int
  axvline_color :: string
  axvline_linestyle :: string
  axvline_label :: string
  xlabel :: string

definition cholesterol_bar :: "int \<Rightarrow> chol_chart" where
  "cholesterol_bar chol_v =
     \<lparr>barh_y = [''Cholesterol''],
      barh_width = [chol_v],
      barh_color = (if chol_v > 200 then ''salmon'' else ''seagreen''),
      axvline_x = 200,
      axvline_color = ''black'',
      axvline_linestyle = ''--'',
      axvline_label = ''Normal Max'',
      xlabel = ''mg/dl''\<rparr>"

subsection \<open>Floats\<close>

text \<open>
  A Python float is a binary64 number: a multiple of \<open>2 ^ (e - 52)\<close>, where \<open>e\<close>, at
  least \<open>- 1022\<close>, is the exponent of the power of two at or below its size. An
  operation on floats gives the float nearest to the exact result, a tie going to the one
  with an even multiple. Overflow is left out: the numbers of the script stay below 101.
\<close>

definition round_half_even :: "real \<Rightarrow> int" where
  "round_half_even x =
     (let f = \<lfloor>x\<rfloor>; d = x - of_int f
      in if d < 1 / 2 then f
         else if 1 / 2 < d then f + 1
         else if even f then f else f + 1)"

fun bit_length :: "nat \<Rightarrow> nat" where
  "bit_length n = (if n = 0 then 0 else Suc (bit_length (n div 2)))"

declare bit_length.simps [simp del]

definition pow2 :: "int \<Rightarrow> real" where
  "pow2 e = (if 0 \<le> e then 2 ^ nat e else 1 / 2 ^ nat (- e))"

definition binade :: "real \<Rightarrow> int" where
  "binade x =
     (if 1 \<le> \<bar>x\<bar> then int (bit_length (nat \<lfloor>\<bar>x\<bar>\<rfloor>)) - 1
      else max (- 1022) (- int (bit_length (nat (\<lceil>1 / \<bar>x\<bar>\<rceil> - 1)))))"

definition to_double :: "real \<Rightarrow> real" where
  "to_double x = (let u = pow2 (binade x - 52) in of_int (round_half_even (x / u)) * u)"

text \<open>\<^verbatim>\<open>a * b\<close> on floats.\<close>

definition fmul :: "real \<Rightarrow> real \<Rightarrow> real" where
  "fmul a b = to_double (a * b)"

text \<open>\<^verbatim>\<open>round(x, ndigits)\<close> on a float: the exact value of \<open>x\<close> is rounded to
  \<open>ndigits\<close> decimal places, a tie going to the even last digit, and the float nearest to
  that decimal number is returned.\<close>

definition py_round :: "real \<Rightarrow> nat \<Rightarrow> real" where
  "py_round x ndigits =
     to_double (of_int (round_half_even (x * 10 ^ ndigits)) / 10 ^ ndigits)"

subsection \<open>Report\<close>

text \<open>\<^verbatim>\<open>df[name] = scalar\<close>: the scalar fills the column \<open>name\<close> in every row; a
  column that is not there yet is added after the last one.\<close>

fun position :: "'a list \<Rightarrow> 'a \<Rightarrow> nat option" where
  "position [] k = None"
| "position (x # xs) k = (if x = k then Some 0 else map_option Suc (position xs k))"

definition setitem :: "data_frame \<Rightarrow> string \<Rightarrow> cell \<Rightarrow> data_frame" where
  "setitem df name v =
     (case position (columns df) name of
        None \<Rightarrow> \<lparr>columns = columns df @ [name], rows = map (\<lambda>r. r @ [v]) (rows df)\<rparr>
      | Some i \<Rightarrow> \<lparr>columns = columns df, rows = map (\<lambda>r. r[i := v]) (rows df)\<rparr>)"

definition report_df :: "data_frame \<Rightarrow> int \<Rightarrow> real \<Rightarrow> data_frame" where
  "report_df df prediction probability =
     setitem (setitem df ''prediction'' (IntCell prediction))
       ''risk_percent'' (FloatCell (py_round (fmul probability 100) 2))"

text \<open>An int is printed in decimal, with a minus sign when negative. How a float is
  printed is a parameter, \<open>float_repr\<close>.\<close>

fun digits :: "nat \<Rightarrow> string" where
  "digits n =
     (if n < 10 then [''0123456789'' ! n]
      else digits (n div 10) @ [''0123456789'' ! (n mod 10)])"

declare digits.simps [simp del]

definition str_int :: "int \<Rightarrow> string" where
  "str_int n = (if n < 0 then CHR ''-'' # digits (nat (- n)) else digits (nat n))"

fun fmt_cell :: "(real \<Rightarrow> string) \<Rightarrow> cell \<Rightarrow> string" where
  "fmt_cell float_repr (IntCell n) = str_int n"
| "fmt_cell float_repr (FloatCell x) = float_repr x"

text \<open>
  \<^verbatim>\<open>to_csv(index=False)\<close>: one line of column names, then one line per row, the
  fields of a line separated by commas and every line ended by a line feed. No name and
  no number of the report needs quoting.
\<close>

fun join :: "string \<Rightarrow> string list \<Rightarrow> string" where
  "join sep [] = []"
| "join sep [x] = x"
| "join sep (x # y # ys) = x @ sep @ join sep (y # ys)"

definition line_feed :: string where
  "line_feed = [CHR 0x0A]"

definition to_csv :: "(real \<Rightarrow> string) \<Rightarrow> data_frame \<Rightarrow> string" where
  "to_csv float_repr df =
     concat (map (\<lambda>fields. join '','' fields @ line_feed)
       (columns df # map (map (fmt_cell float_repr)) (rows df)))"


record download =
  label :: string
  data :: string
  file_name :: string
  mime :: string

text \<open>The label of the button starts with the pictograph U+1F4E5, here its four bytes in
  UTF-8.\<close>

definition inbox_tray :: string where
  "inbox_tray = [CHR 0xF0, CHR 0x9F, CHR 0x93, CHR 0xA5]"

definition download_button ::
  "(real \<Rightarrow> string) \<Rightarrow> data_frame \<Rightarrow> int \<Rightarrow> real \<Rightarrow> download" where
  "download_button float_repr df prediction probability =
     \<lparr>label = inbox_tray @ '' Download Report'',
      data = to_csv float_repr (report_df df prediction probability),
      file_name = ''heart_risk_report.csv'',
      mime = ''text/csv''\<rparr>"

subsection \<open>The script\<close>

text \<open>What a run puts on the page, in order, and how the run ends. The texts of the
  \<^verbatim>\<open>st.markdown\<close> calls are named, not spelt out. The two calls of
  \<^verbatim>\<open>time.sleep(2)\<close> inside the spinners only delay the run and leave no trace.\<close>

datatype markdown =
    PageStyle
  | Title
  | DetailsTitle
  | ErrorMsg
  | SuccessMsg
  | HealthMetric
  | ReportReady

datatype element =
    StError string
  | PageConfig string string
  | Markdown markdown
  | Form string
  | Spinner string
  | Balloons
  | PlotlyChart gauge
  | Pyplot chol_chart
  | DownloadButton download

datatype outcome = Completed | Stopped | Raised error

definition load_error_text :: string where
  "load_error_text =
     ''Error loading the model. Please make sure '' @ [CHR 0x27] @ ''model_random.pkl''
       @ [CHR 0x27] @ '' is in the same folder.''"

definition verdict :: "int \<Rightarrow> element list" where
  "verdict prediction =
     (if prediction = 1 then [Markdown ErrorMsg] else [Markdown SuccessMsg, Balloons])"

text \<open>Everything after the feature row is built: the model is asked about \<open>df\<close>, and the
  verdict, the two charts and the download button follow.\<close>

definition show_result ::
  "model \<Rightarrow> (real \<Rightarrow> string) \<Rightarrow> patient_input \<Rightarrow> data_frame \<Rightarrow> element list \<times> outcome" where
  "show_result model_random fmt p df =
     (case ask_model model_random df of
        Inl e \<Rightarrow> ([Spinner ''Analyzing health data...''], Raised e)
      | Inr (prediction, probability) \<Rightarrow>
          ([Spinner ''Analyzing health data...''] @ verdict prediction @
           [PlotlyChart (risk_gauge prediction probability),
            Markdown HealthMetric,
            Pyplot (cholesterol_bar (chol p)),
            Spinner ''Preparing your report...'',
            DownloadButton (download_button fmt df prediction probability),
            Markdown ReportReady],
           Completed))"

definition on_submit ::
  "model \<Rightarrow> (real \<Rightarrow> string) \<Rightarrow> patient_input \<Rightarrow> element list \<times> outcome" where
  "on_submit model_random fmt p =
     (case input_data p of
        Inl e \<Rightarrow> ([], Raised e)
      | Inr df \<Rightarrow> show_result model_random fmt p df)"

definition page_head :: "element list" where
  "page_head =
     [PageConfig ''Heart Disease Predictor'' ''centered'',
      Markdown PageStyle, Markdown Title, Markdown DetailsTitle,
      Form ''heart_form'']"

text \<open>One run of the script: \<open>loaded\<close> is what \<^verbatim>\<open>pkl.load\<close> gave, \<open>p\<close> the values of
  the form's widgets, \<open>submit_button\<close> whether Predict was pressed.\<close>

definition app ::
  "error + model \<Rightarrow> (real \<Rightarrow> string) \<Rightarrow> patient_input \<Rightarrow> bool \<Rightarrow> element list \<times> outcome" where
  "app loaded fmt p submit_button =
     (case loaded of
        Inl e \<Rightarrow> ([StError load_error_text], Stopped)
      | Inr model_random \<Rightarrow>
          if submit_button
          then (case on_submit model_random fmt p of
                  (shown, how) \<Rightarrow> (page_head @ shown, how))
          else (page_head, Completed))"

subsection \<open>A sample submission and a sample model\<close>

text \<open>The patient of the specification's scenario, and the row the scenario expects.\<close>

definition scenario :: patient_input where
  "scenario =
     \<lparr>age = 63, sex = ''Male'', cp = ''Typical Angina'', fbs = ''True'',
      restecg = ''Normal'', exercise = ''No pain'', trestbps = 145, chol = 233,
      thalach = 150, oldpeak = 2.3, slope = ''Downsloping'', ca = ''Normal'',
      thal = ''Fixed Defect''\<rparr>"

definition scenario_frame :: data_frame where
  "scenario_frame =
     \<lparr>columns = feature_columns,
      rows = [[IntCell 63, IntCell 145, IntCell 233, IntCell 150, FloatCell 2.3,
               IntCell 1, IntCell 3, IntCell 1, IntCell 1, IntCell 0, IntCell 0,
               IntCell 0, IntCell 0]]\<rparr>"



text \<open>The six dicts of the encoder.\<close>

definition code_maps :: "code_map list" where
  "code_maps = [cp_map, restecg_map, exang_map, slope_map, ca_map, thal_map]"

section \<open>Properties\<close>

lemmas code_map_defs =
  cp_map_def restecg_map_def exang_map_def slope_map_def ca_map_def thal_map_def

lemmas options_defs =
  sex_options_def cp_options_def fbs_options_def restecg_options_def
  exercise_options_def slope_options_def ca_options_def thal_options_def

lemmas number_input_defs =
  age_input_def trestbps_input_def chol_input_def thalach_input_def oldpeak_input_def

subsection \<open>The scenario row\<close>

text \<open>
  C1. The scenario's patient (age 63, Male, Typical Angina, trestbps 145, chol 233, fbs True,
  restecg Normal, thalach 150, No pain, oldpeak 2.3, Downsloping, ca Normal, Fixed Defect)
  is encoded as the single row 63, 145, 233, 150, 2.3, 1, 3, 1, 1, 0, 0, 0, 0 under the
  thirteen feature columns in their order, and this frame is what the model is asked about.
\<close>

theorem scenario_row:
  "input_data scenario = Inr scenario_frame \<and>
   on_submit m fmt scenario = show_result m fmt scenario scenario_frame"
  by (simp add: on_submit_def input_data_def scenario_def scenario_frame_def then_do_def
      getitem_def code_map_defs sex_code_def fbs_code_def)

subsection \<open>Bounds of the numeric inputs\<close>

text \<open>
  C8. The age widget accepts exactly the integers from 1 to 120: 1 and 120 are accepted,
  0 and 121 are not.
\<close>

theorem age_bounds:
  "(accepts age_input a \<longleftrightarrow> 1 \<le> a \<and> a \<le> 120) \<and>
   accepts age_input 1 \<and> accepts age_input 120 \<and>
   \<not> accepts age_input 0 \<and> \<not> accepts age_input 121"
  by (simp add: accepts_def age_input_def)

text \<open>
  C10. Resting blood pressure is accepted exactly in 80..200, cholesterol in 100..600,
  maximum heart rate in 60..220 and ST depression in 0.0..10.0.
\<close>

theorem numeric_bounds:
  "(accepts trestbps_input b \<longleftrightarrow> 80 \<le> b \<and> b \<le> 200) \<and>
   (accepts chol_input c \<longleftrightarrow> 100 \<le> c \<and> c \<le> 600) \<and>
   (accepts thalach_input h \<longleftrightarrow> 60 \<le> h \<and> h \<le> 220) \<and>
   (accepts oldpeak_input x \<longleftrightarrow> 0.0 \<le> x \<and> x \<le> 10.0)"
  by (simp add: accepts_def trestbps_input_def chol_input_def thalach_input_def
      oldpeak_input_def)

subsection \<open>The encoding tables\<close>

text \<open>
  C9. The code of every label, field by field: sex Male 1, Female 0; fbs True 1, False 0;
  cp Typical Angina 3, Atypical Angina 1, Non Anginal Pain 2, Asymptomatic 0; restecg
  Abnormality 0, Normal 1, Left ventricular hypertrophy 2; exercise No pain 0, Pain 1;
  slope Downsloping 0, Upsloping 2, Flat 1; ca Normal 0 up to Four vessel colored 4; thal
  Reversible defect 2, Normal 1, Fixed Defect 0, Unknown 3. The keys of each dict are the
  options of its widget, in the same order.
\<close>

theorem encoding_tables:
  "sex_code ''Male'' = 1 \<and> sex_code ''Female'' = 0 \<and>
   fbs_code ''True'' = 1 \<and> fbs_code ''False'' = 0 \<and>
   getitem cp_map ''Typical Angina'' = Inr 3 \<and>
   getitem cp_map ''Atypical Angina'' = Inr 1 \<and>
   getitem cp_map ''Non Anginal Pain'' = Inr 2 \<and>
   getitem cp_map ''Asymptomatic'' = Inr 0 \<and>
   getitem restecg_map ''Abnormality'' = Inr 0 \<and>
   getitem restecg_map ''Normal'' = Inr 1 \<and>
   getitem restecg_map ''Left ventricular hypertrophy'' = Inr 2 \<and>
   getitem exang_map ''No pain'' = Inr 0 \<and>
   getitem exang_map ''Pain'' = Inr 1 \<and>
   getitem slope_map ''Downsloping'' = Inr 0 \<and>
   getitem slope_map ''Upsloping'' = Inr 2 \<and>
   getitem slope_map ''Flat'' = Inr 1 \<and>
   getitem ca_map ''Normal'' = Inr 0 \<and>
   getitem ca_map ''One vessel colored'' = Inr 1 \<and>
   getitem ca_map ''Two vessels colored'' = Inr 2 \<and>
   getitem ca_map ''Three vessels colored'' = Inr 3 \<and>
   getitem ca_map ''Four vessel colored'' = Inr 4 \<and>
   getitem thal_map ''Reversible defect'' = Inr 2 \<and>
   getitem thal_map ''Normal'' = Inr 1 \<and>
   getitem thal_map ''Fixed Defect'' = Inr 0 \<and>
   getitem thal_map ''Unknown'' = Inr 3 \<and>
   map fst cp_map = cp_options \<and>
   map fst restecg_map = restecg_options \<and>
   map fst exang_map = exercise_options \<and>
   map fst slope_map = slope_options \<and>
   map fst ca_map = ca_options \<and>
   map fst thal_map = thal_options"
  by (simp add: sex_code_def fbs_code_def getitem_def code_map_defs options_defs)

subsection \<open>The cholesterol bar\<close>

text \<open>
  C7. The cholesterol bar is salmon exactly when the cholesterol value is above 200 and
  seagreen otherwise: 200 is not flagged, 201 is. The reference line is at 200.
\<close>

theorem cholesterol_flag:
  "(barh_color (cholesterol_bar c) = ''salmon'' \<longleftrightarrow> 200 < c) \<and>
   (barh_color (cholesterol_bar c) = ''seagreen'' \<longleftrightarrow> c \<le> 200) \<and>
   barh_color (cholesterol_bar 200) = ''seagreen'' \<and>
   barh_color (cholesterol_bar 201) = ''salmon'' \<and>
   barh_width (cholesterol_bar c) = [c] \<and>
   axvline_x (cholesterol_bar c) = 200"
  by (simp add: cholesterol_bar_def)

subsection \<open>Failure to load the model\<close>

lemma form_drawn_when_loaded:
  "Form ''heart_form'' \<in> set (fst (app (Inr m) fmt p submit_button))"
  by (simp add: app_def page_head_def split: prod.splits)

text \<open>
  C6. When loading the model raises, the run shows the error message and nothing else, and
  stops there: the form is not drawn, and neither the prediction nor the report is reached,
  whatever the state of the form.
\<close>

theorem load_failure_stops:
  "app (Inl e) fmt p submit_button = ([StError load_error_text], Stopped)"
  by (simp add: app_def)

subsection \<open>One code per label\<close>

lemma getitem_Inr_iff: "getitem d k = Inr v \<longleftrightarrow> map_of d k = Some v"
  by (simp add: getitem_def split: option.splits)

lemma map_of_distinct_codes:
  "distinct (map snd d) \<Longrightarrow> map_of d k1 = Some v \<Longrightarrow> map_of d k2 = Some v \<Longrightarrow> k1 = k2"
proof (induction d)
  case Nil
  then show ?case by simp
next
  case (Cons kv d)
  obtain k c where kv: "kv = (k, c)" by (cases kv)
  have fresh: "c \<noteq> v" if "map_of d k' = Some v" for k'
  proof
    assume "c = v"
    from that have "(k', v) \<in> set d" by (rule map_of_SomeD)
    then have "v \<in> snd ` set d" by force
    with Cons.prems(1) kv \<open>c = v\<close> show False by simp
  qed
  show ?case
  proof (cases "k1 = k")
    case True
    show ?thesis
    proof (cases "k2 = k")
      case True
      with \<open>k1 = k\<close> show ?thesis by simp
    next
      case False
      with Cons.prems(3) kv have "map_of d k2 = Some v" by simp
      moreover from \<open>k1 = k\<close> Cons.prems(2) kv have "c = v" by simp
      ultimately show ?thesis using fresh by blast
    qed
  next
    case False
    with Cons.prems(2) kv have k1: "map_of d k1 = Some v" by simp
    show ?thesis
    proof (cases "k2 = k")
      case True
      with Cons.prems(3) kv have "c = v" by simp
      with k1 fresh show ?thesis by blast
    next
      case False
      with Cons.prems(3) kv have "map_of d k2 = Some v" by simp
      moreover from Cons.prems(1) have "distinct (map snd d)" by simp
      ultimately show ?thesis using Cons.IH k1 by blast
    qed
  qed
qed

lemma distinct_codes:
  "m \<in> set code_maps \<Longrightarrow> distinct (map fst m) \<and> distinct (map snd m)"
  unfolding code_maps_def code_map_defs by auto

lemma inj_sex: "inj_on sex_code (set sex_options)"
    by (simp add: sex_code_def sex_options_def)
lemma inj_fbs:   "inj_on fbs_code (set fbs_options)"
    by (simp add: fbs_code_def fbs_options_def)

text \<open>
  C5. In each of the six dicts no label occurs twice, so a label has exactly one code, and no
  two labels of a dict have the same code. The two fields encoded by a comparison, sex and
  fbs, give their two labels different codes as well.
\<close>

theorem label_codes_injective:
  "(\<forall>m \<in> set code_maps. distinct (map fst m) \<and>
      (\<forall>l1 l2 c. getitem m l1 = Inr c \<and> getitem m l2 = Inr c \<longrightarrow> l1 = l2)) \<and>
   inj_on sex_code (set sex_options) \<and>
   inj_on fbs_code (set fbs_options)"
proof (intro conjI ballI allI impI)
  fix m assume "m \<in> set code_maps"
  then show "distinct (map fst m)" using distinct_codes by blast
next
  fix m l1 l2 c
  assume m: "m \<in> set code_maps" and "getitem m l1 = Inr c \<and> getitem m l2 = Inr c"
  then have "map_of m l1 = Some c" "map_of m l2 = Some c"
    by (simp_all add: getitem_Inr_iff)
  moreover from distinct_codes [OF m] have "distinct (map snd m)" by simp
  ultimately show "l1 = l2"
    by (rule map_of_distinct_codes [rotated])
next
  show "inj_on sex_code (set sex_options)"
    by (rule inj_sex)
  show "inj_on fbs_code (set fbs_options)"
    by (rule inj_fbs)
qed

theorem label_codes_injective_witness:
  "cp_map \<in> set code_maps \<and> getitem cp_map ''Typical Angina'' = Inr 3 \<and>
   getitem cp_map ''Asymptomatic'' \<noteq> Inr 3"
proof -
  have mem: "cp_map \<in> set code_maps" by (simp add: code_maps_def)
  have a: "getitem cp_map ''Typical Angina'' = Inr 3"
    by (simp add: getitem_def cp_map_def)
  have ne: "''Typical Angina'' \<noteq> ''Asymptomatic''" by simp
  from label_codes_injective have
    "\<forall>m \<in> set code_maps. \<forall>l1 l2 c. getitem m l1 = Inr c \<and> getitem m l2 = Inr c \<longrightarrow> l1 = l2"
    by simp
  from this [rule_format, OF mem, of "''Typical Angina''" 3 "''Asymptomatic''"] a ne
  have "getitem cp_map ''Asymptomatic'' \<noteq> Inr 3" by blast
  with mem a show ?thesis by simp
qed

subsection \<open>Every selectable label has a code\<close>

lemma then_do_Inr: "r = Inr x \<Longrightarrow> then_do r f = f x"
  by (simp add: then_do_def)

lemma submittable_encodes:
  assumes cp: "\<exists>c. getitem cp_map (cp p) = Inr c"
    and restecg: "\<exists>c. getitem restecg_map (restecg p) = Inr c"
    and exang: "\<exists>c. getitem exang_map (exercise p) = Inr c"
    and slope: "\<exists>c. getitem slope_map (slope p) = Inr c"
    and ca: "\<exists>c. getitem ca_map (ca p) = Inr c"
    and thal: "\<exists>c. getitem thal_map (thal p) = Inr c"
  shows "\<exists>df. input_data p = Inr df"
proof -
  from cp obtain c1 where c1: "getitem cp_map (cp p) = Inr c1" ..
  from restecg obtain c2 where c2: "getitem restecg_map (restecg p) = Inr c2" ..
  from exang obtain c3 where c3: "getitem exang_map (exercise p) = Inr c3" ..
  from slope obtain c4 where c4: "getitem slope_map (slope p) = Inr c4" ..
  from ca obtain c5 where c5: "getitem ca_map (ca p) = Inr c5" ..
  from thal obtain c6 where c6: "getitem thal_map (thal p) = Inr c6" ..
  show ?thesis
    unfolding input_data_def
    by (simp only: then_do_Inr [OF c1] then_do_Inr [OF c2] then_do_Inr [OF c3]
        then_do_Inr [OF c4] then_do_Inr [OF c5] then_do_Inr [OF c6]) blast
qed

lemma scenario_submittable: "submittable scenario"
  by (simp add: submittable_def scenario_def accepts_def number_input_defs options_defs)

text \<open>
  C4. Every label a selection widget offers is a key of the dict its field is looked up in,
  so for every input the form can submit the encoding returns a feature row and raises
  nothing.
\<close>

theorem selectable_labels_encode:
  "(\<forall>l \<in> set cp_options. \<exists>c. getitem cp_map l = Inr c) \<and>
   (\<forall>l \<in> set restecg_options. \<exists>c. getitem restecg_map l = Inr c) \<and>
   (\<forall>l \<in> set exercise_options. \<exists>c. getitem exang_map l = Inr c) \<and>
   (\<forall>l \<in> set slope_options. \<exists>c. getitem slope_map l = Inr c) \<and>
   (\<forall>l \<in> set ca_options. \<exists>c. getitem ca_map l = Inr c) \<and>
   (\<forall>l \<in> set thal_options. \<exists>c. getitem thal_map l = Inr c) \<and>
   (\<forall>p. submittable p \<longrightarrow> (\<exists>df. input_data p = Inr df))"
proof -
  have cp: "\<forall>l \<in> set cp_options. \<exists>c. getitem cp_map l = Inr c"
    by (simp add: cp_options_def cp_map_def getitem_def)
  have restecg: "\<forall>l \<in> set restecg_options. \<exists>c. getitem restecg_map l = Inr c"
    by (simp add: restecg_options_def restecg_map_def getitem_def)
  have exang: "\<forall>l \<in> set exercise_options. \<exists>c. getitem exang_map l = Inr c"
    by (simp add: exercise_options_def exang_map_def getitem_def)
  have slope: "\<forall>l \<in> set slope_options. \<exists>c. getitem slope_map l = Inr c"
    by (simp add: slope_options_def slope_map_def getitem_def)
  have ca: "\<forall>l \<in> set ca_options. \<exists>c. getitem ca_map l = Inr c"
    by (simp add: ca_options_def ca_map_def getitem_def)
  have thal: "\<forall>l \<in> set thal_options. \<exists>c. getitem thal_map l = Inr c"
    by (simp add: thal_options_def thal_map_def getitem_def)
  have all: "\<exists>df. input_data p = Inr df" if "submittable p" for p
  proof (rule submittable_encodes)
    from that have "cp p \<in> set cp_options" by (simp add: submittable_def)
    with cp show "\<exists>c. getitem cp_map (cp p) = Inr c" ..
    from that have "restecg p \<in> set restecg_options" by (simp add: submittable_def)
    with restecg show "\<exists>c. getitem restecg_map (restecg p) = Inr c" ..
    from that have "exercise p \<in> set exercise_options" by (simp add: submittable_def)
    with exang show "\<exists>c. getitem exang_map (exercise p) = Inr c" ..
    from that have "slope p \<in> set slope_options" by (simp add: submittable_def)
    with slope show "\<exists>c. getitem slope_map (slope p) = Inr c" ..
    from that have "ca p \<in> set ca_options" by (simp add: submittable_def)
    with ca show "\<exists>c. getitem ca_map (ca p) = Inr c" ..
    from that have "thal p \<in> set thal_options" by (simp add: submittable_def)
    with thal show "\<exists>c. getitem thal_map (thal p) = Inr c" ..
  qed
  from cp restecg exang slope ca thal all show ?thesis by (intro conjI allI impI)
qed

theorem selectable_labels_encode_witness:
  "''Fixed Defect'' \<in> set thal_options \<and> (\<exists>c. getitem thal_map ''Fixed Defect'' = Inr c) \<and>
   submittable scenario \<and> (\<exists>df. input_data scenario = Inr df)"
proof -
  have l: "''Fixed Defect'' \<in> set thal_options" by (simp add: thal_options_def)
  from selectable_labels_encode
  have t: "\<forall>l \<in> set thal_options. \<exists>c. getitem thal_map l = Inr c"
    and a: "\<forall>p. submittable p \<longrightarrow> (\<exists>df. input_data p = Inr df)"
    by blast+
  from t l have "\<exists>c. getitem thal_map ''Fixed Defect'' = Inr c" ..
  moreover from a scenario_submittable have "\<exists>df. input_data scenario = Inr df"
    by blast
  ultimately show ?thesis using l scenario_submittable by (intro conjI)
qed

subsection \<open>The risk gauge\<close>







subsection \<open>Floats of the report\<close>

lemma bit_length_numeral [simp]:
  "bit_length 0 = 0"
  "bit_length (Suc 0) = Suc 0"
  "bit_length (numeral k) = Suc (bit_length (numeral k div 2))"
  by (subst bit_length.simps, simp add: bit_length.simps [of 0])+

lemma bl3: "bit_length 3 = 2" by simp
lemma bl30: "bit_length 30 = 5" by simp


















subsection \<open>The report\<close>

















end
